theory Spec2Isabelle
  imports Complex_Main
begin

section \<open>Event tables\<close>

text \<open>
  An event table is a pandas DataFrame: a list of column names and a list of rows.
  A row carries one optional value per column the feature code reads; \<open>None\<close> is a
  missing value (NaN, NA or Python's None).  Whether a column exists at all is recorded
  in \<open>columns\<close>, and the code's checks \<open>"c" in df.columns\<close> read that list.
  Coordinates and minutes are Python floats, modelled as exact reals.  Integer columns
  (\<open>period\<close>, \<open>team_id\<close>) have the nullable integer type the normalizer
  gives them.  A row keeps its index label wherever it goes, so a frame is determined by
  its columns and its list of rows.
  The field \<open>seconds_col\<close> is the scratch column \<open>_seconds\<close> that the minute
  filters add and drop again.
\<close>

record event =
  period :: "int option"
  timestamp :: "string option"
  type_name :: "string option"
  team_id :: "int option"
  team_name :: "string option"
  loc_x :: "real option"
  loc_y :: "real option"
  end_x :: "real option"
  pass_outcome :: "string option"
  shot_outcome :: "string option"
  seconds_col :: "real option"

record table =
  columns :: "string list"
  rows :: "event list"

text \<open>\<open>df.empty\<close>: some axis of the frame has length 0.\<close>

definition empty :: "table \<Rightarrow> bool" where
  "empty df = (columns df = [] \<or> rows df = [])"

text \<open>\<open>df[mask]\<close>: boolean-mask indexing keeps the rows where the mask is true.\<close>

definition select :: "(event \<Rightarrow> bool) \<Rightarrow> table \<Rightarrow> table" where
  "select P df = df\<lparr>rows := filter P (rows df)\<rparr>"

definition has_col :: "table \<Rightarrow> string \<Rightarrow> bool" where
  "has_col df c = (c \<in> set (columns df))"

section \<open>Time window selection (features/utils.py)\<close>

definition filter_by_period :: "table \<Rightarrow> int \<Rightarrow> table" where
  "filter_by_period df p =
     (if \<not> has_col df ''period'' then df
      else select (\<lambda>e. period e = Some p) df)"

text \<open>
  \<open>_timestamp_to_seconds\<close> matches the regular expression
  \<open>(\d+):(\d+):(\d+)\.?(\d*)\<close> at the start of the string.  Each \<open>\d+\<close> is
  greedy and is followed by a character that is not a digit, so the match takes the
  longest run of digits each time; the fourth group is the run of digits after the
  optional dot, and is empty when there is no dot.
\<close>

definition is_digit :: "char \<Rightarrow> bool" where
  "is_digit c = (c \<in> set ''0123456789'')"

definition digit_val :: "char \<Rightarrow> nat" where
  "digit_val c = of_char c - 48"

text \<open>Python's \<open>int(s)\<close> on a string of decimal digits.\<close>

definition int_of_digits :: "string \<Rightarrow> nat" where
  "int_of_digits ds = foldl (\<lambda>a c. 10 * a + digit_val c) 0 ds"

definition match_timestamp :: "string \<Rightarrow> (string \<times> string \<times> string \<times> string) option" where
  "match_timestamp str =
     (let h = takeWhile is_digit str; r1 = dropWhile is_digit str in
      if h = [] \<or> r1 = [] \<or> hd r1 \<noteq> CHR '':'' then None
      else
        (let m = takeWhile is_digit (tl r1); r2 = dropWhile is_digit (tl r1) in
         if m = [] \<or> r2 = [] \<or> hd r2 \<noteq> CHR '':'' then None
         else
           (let s = takeWhile is_digit (tl r2); r3 = dropWhile is_digit (tl r2) in
            if s = [] then None
            else if r3 \<noteq> [] \<and> hd r3 = CHR ''.'' then Some (h, m, s, takeWhile is_digit (tl r3))
            else Some (h, m, s, []))))"

text \<open>\<open>digits.ljust(3, "0")[:3]\<close>\<close>

definition ljust3 :: "string \<Rightarrow> string" where
  "ljust3 ds = take 3 (ds @ replicate (3 - length ds) CHR ''0'')"

definition timestamp_to_seconds :: "string option \<Rightarrow> real" where
  "timestamp_to_seconds ts =
     (case ts of
        None \<Rightarrow> 0
      | Some str \<Rightarrow>
          (case match_timestamp str of
             None \<Rightarrow> 0
           | Some (h, m, s, fraction) \<Rightarrow>
               (let secs = real (int_of_digits h * 3600 + int_of_digits m * 60 + int_of_digits s) in
                if fraction \<noteq> [] then secs + real (int_of_digits (ljust3 fraction)) / 1000
                else secs)))"

text \<open>\<open>Series.dropna()\<close> and \<open>Series.unique()\<close> (values in order of first appearance).\<close>

definition dropna :: "'a option list \<Rightarrow> 'a list" where
  "dropna xs = concat (map (\<lambda>v. case v of None \<Rightarrow> [] | Some a \<Rightarrow> [a]) xs)"

fun unique_from :: "'a list \<Rightarrow> 'a list \<Rightarrow> 'a list" where
  "unique_from seen [] = []"
| "unique_from seen (v # vs) =
     (if v \<in> set seen then unique_from seen vs else v # unique_from (v # seen) vs)"

definition unique :: "'a list \<Rightarrow> 'a list" where
  "unique vs = unique_from [] vs"

text \<open>
  \<open>df["_seconds"] = df["timestamp"].apply(_timestamp_to_seconds)\<close>: the column is
  overwritten when it exists and appended otherwise.
\<close>

definition add_seconds :: "table \<Rightarrow> table" where
  "add_seconds df =
     \<lparr>columns = (if has_col df ''_seconds'' then columns df else columns df @ [''_seconds'']),
      rows = map (\<lambda>e. e\<lparr>seconds_col := Some (timestamp_to_seconds (timestamp e))\<rparr>) (rows df)\<rparr>"

text \<open>\<open>.drop(columns=["_seconds"], errors="ignore")\<close>\<close>

definition drop_seconds :: "table \<Rightarrow> table" where
  "drop_seconds df =
     \<lparr>columns = filter (\<lambda>c. c \<noteq> ''_seconds'') (columns df),
      rows = map (\<lambda>e. e\<lparr>seconds_col := None\<rparr>) (rows df)\<rparr>"

text \<open>A comparison with a missing value is false.\<close>

definition ge_na :: "real option \<Rightarrow> real \<Rightarrow> bool" where
  "ge_na v c = (case v of None \<Rightarrow> False | Some a \<Rightarrow> a \<ge> c)"

definition le_na :: "real option \<Rightarrow> real \<Rightarrow> bool" where
  "le_na v c = (case v of None \<Rightarrow> False | Some a \<Rightarrow> a \<le> c)"

definition gt_na :: "real option \<Rightarrow> real \<Rightarrow> bool" where
  "gt_na v c = (case v of None \<Rightarrow> False | Some a \<Rightarrow> a > c)"

definition lt_na :: "real option \<Rightarrow> real \<Rightarrow> bool" where
  "lt_na v c = (case v of None \<Rightarrow> False | Some a \<Rightarrow> a < c)"


definition filter_first_n_minutes :: "table \<Rightarrow> real \<Rightarrow> int option \<Rightarrow> table" where
  "filter_first_n_minutes df0 n_minutes period_arg =
     (if \<not> has_col df0 ''period'' \<or> \<not> has_col df0 ''timestamp'' then df0
      else
        let df = add_seconds df0;
            use_period = (case period_arg of Some p \<Rightarrow> p | None \<Rightarrow> 1);
            cutoff = n_minutes * 60
        in drop_seconds
             (select (\<lambda>e. period e = Some use_period \<and> le_na (seconds_col e) cutoff) df))"

text \<open>
  The window of the specification, in its own words: the reference period is the given
  period, or the largest period present; an event's elapsed seconds are those of its
  timestamp; the period length is the largest elapsed time seen in the reference period,
  but at least 45 minutes; the events kept are those of the reference period at or after
  the cutoff.
\<close>

definition reference_period :: "table \<Rightarrow> int option \<Rightarrow> int" where
  "reference_period df period_arg =
     (case period_arg of Some p \<Rightarrow> p | None \<Rightarrow> Max (set (dropna (map period (rows df)))))"

definition elapsed :: "event \<Rightarrow> real" where
  "elapsed e = timestamp_to_seconds (timestamp e)"

definition in_period :: "int \<Rightarrow> event \<Rightarrow> bool" where
  "in_period p e = (period e = Some p)"

definition last_n_cutoff :: "table \<Rightarrow> real \<Rightarrow> int option \<Rightarrow> real" where
  "last_n_cutoff df n_minutes period_arg =
     max (Max (elapsed ` set (filter (in_period (reference_period df period_arg)) (rows df))))
         (45 * 60)
       - n_minutes * 60"


section \<open>Python values\<close>

text \<open>
  Reading a column that the frame does not have, \<open>df["c"]\<close>, raises KeyError.
  \<open>with_column df c k\<close> is the computation \<open>k\<close> behind such a read.
\<close>

datatype py_error = KeyError string

definition with_column :: "table \<Rightarrow> string \<Rightarrow> py_error + 'a \<Rightarrow> py_error + 'a" where
  "with_column df c k = (if has_col df c then k else Inl (KeyError c))"

definition and_then :: "py_error + 'a \<Rightarrow> ('a \<Rightarrow> py_error + 'b) \<Rightarrow> py_error + 'b" where
  "and_then r f = (case r of Inl err \<Rightarrow> Inl err | Inr v \<Rightarrow> f v)"

text \<open>
  A dict is an association list with distinct keys; \<open>d.get(k, default)\<close> is
  \<open>dict_get\<close>.  Python compares dicts without regard to order, and the callers only
  look keys up or sum the values, so the order of the entries carries no meaning.
\<close>

definition dict_get :: "('k \<times> 'v) list \<Rightarrow> 'k \<Rightarrow> 'v \<Rightarrow> 'v" where
  "dict_get d k dflt = (case map_of d k of None \<Rightarrow> dflt | Some v \<Rightarrow> v)"

text \<open>\<open>Series.value_counts()\<close>: occurrences of each value, missing values dropped.\<close>

definition value_counts :: "int option list \<Rightarrow> (int \<times> nat) list" where
  "value_counts vs = map (\<lambda>k. (k, count_list vs (Some k))) (unique (dropna vs))"

text \<open>\<open>str(tid)\<close> for an integer team id.\<close>

definition digit_char :: "nat \<Rightarrow> char" where
  "digit_char d = ''0123456789'' ! d"

function str_nat :: "nat \<Rightarrow> string" where
  "str_nat n = (if n < 10 then [digit_char n] else str_nat (n div 10) @ [digit_char (n mod 10)])"
  by pat_completeness auto
termination
  by (relation "measure (\<lambda>n. n)") auto

declare str_nat.simps [simp del]

definition str_int :: "int \<Rightarrow> string" where
  "str_int i = (if i < 0 then CHR ''-'' # str_nat (nat (- i)) else str_nat (nat i))"

text \<open>
  \<open>round(v, ndigits)\<close> on the exact value: to the nearest multiple of
  \<open>10 ^ (- ndigits)\<close>, a tie going to the even one.
\<close>

definition py_round :: "real \<Rightarrow> nat \<Rightarrow> real" where
  "py_round v ndigits =
     (let scaled = v * 10 ^ ndigits;
          lower = \<lfloor>scaled\<rfloor>;
          rest = scaled - of_int lower
      in of_int (if rest < 1 / 2 then lower
                 else if rest > 1 / 2 then lower + 1
                 else if even lower then lower else lower + 1) / 10 ^ ndigits)"

text \<open>\<open>Series.mean()\<close> over the values present.\<close>

definition mean :: "real list \<Rightarrow> real" where
  "mean vs = sum_list vs / real (length vs)"

section \<open>Metric functions (features/metrics.py)\<close>

definition is_type :: "string \<Rightarrow> event \<Rightarrow> bool" where
  "is_type t e = (type_name e = Some t)"

text \<open>\<open>Series.isin(values)\<close>: a missing value is in no list.\<close>

definition isin :: "string option \<Rightarrow> string list \<Rightarrow> bool" where
  "isin v vals = (case v of None \<Rightarrow> False | Some a \<Rightarrow> a \<in> set vals)"

definition possession_share_from_passes :: "table \<Rightarrow> py_error + (string \<times> real) list" where
  "possession_share_from_passes df =
     (if empty df \<or> \<not> has_col df ''team_id'' \<or> \<not> has_col df ''type_name'' then Inr []
      else with_column df ''type_name''
        (let passes = select (is_type ''Pass'') df in
         if empty passes then Inr []
         else with_column passes ''team_id''
           (let counts = value_counts (map team_id (rows passes));
                total = sum_list (map snd counts)
            in if total = 0 then Inr []
               else Inr (map (\<lambda>(tid, count). (str_int tid, real count / real total)) counts))))"

definition ball_receipts_by_team :: "table \<Rightarrow> py_error + (int \<times> nat) list" where
  "ball_receipts_by_team df =
     (if empty df \<or> \<not> has_col df ''team_id'' \<or> \<not> has_col df ''type_name'' then Inr []
      else with_column df ''type_name''
        (let receipts = select (is_type ''Ball Receipt'') df in
         with_column receipts ''team_id'' (Inr (value_counts (map team_id (rows receipts))))))"

definition pass_counts_by_team :: "table \<Rightarrow> py_error + (int \<times> nat) list" where
  "pass_counts_by_team df =
     (if empty df \<or> \<not> has_col df ''team_id'' \<or> \<not> has_col df ''type_name'' then Inr []
      else with_column df ''type_name''
        (let passes = select (is_type ''Pass'') df in
         with_column passes ''team_id'' (Inr (value_counts (map team_id (rows passes))))))"

definition successful_pass_counts_by_team :: "table \<Rightarrow> py_error + (int \<times> nat) list" where
  "successful_pass_counts_by_team df =
     (if empty df \<or> \<not> has_col df ''team_id'' \<or> \<not> has_col df ''type_name'' then Inr []
      else with_column df ''type_name''
        (let passes = select (is_type ''Pass'') df in
         if empty passes then Inr []
         else if has_col passes ''pass_outcome'' then
           with_column passes ''pass_outcome''
             (let successful =
                    select (\<lambda>e. pass_outcome e = None \<or> pass_outcome e = Some ''Complete'') passes
              in with_column successful ''team_id''
                   (Inr (value_counts (map team_id (rows successful)))))
         else with_column passes ''team_id'' (Inr (value_counts (map team_id (rows passes))))))"

definition shot_counts_by_team :: "table \<Rightarrow> py_error + (int \<times> nat) list" where
  "shot_counts_by_team df =
     (if empty df \<or> \<not> has_col df ''team_id'' \<or> \<not> has_col df ''type_name'' then Inr []
      else with_column df ''type_name''
        (let shots = select (is_type ''Shot'') df in
         with_column shots ''team_id'' (Inr (value_counts (map team_id (rows shots))))))"

definition shots_on_target_by_team :: "table \<Rightarrow> py_error + (int \<times> nat) list" where
  "shots_on_target_by_team df =
     (if empty df \<or> \<not> has_col df ''team_id'' \<or> \<not> has_col df ''type_name'' then Inr []
      else with_column df ''type_name''
        (let shots = select (is_type ''Shot'') df in
         if empty shots then Inr []
         else if \<not> has_col shots ''shot_outcome'' then shot_counts_by_team df
         else with_column shots ''shot_outcome''
           (let on_target = select (\<lambda>e. isin (shot_outcome e) [''Saved'', ''Goal'']) shots
            in with_column on_target ''team_id''
                 (Inr (value_counts (map team_id (rows on_target)))))))"

text \<open>
  The keys of the first branch come from \<open>unique()\<close>, which keeps a missing team id
  as a key; the keys of the second come from \<open>value_counts()\<close>, which drops it.
\<close>

definition goals_by_team :: "table \<Rightarrow> py_error + (int option \<times> nat) list" where
  "goals_by_team df =
     (if empty df \<or> \<not> has_col df ''team_id'' \<or> \<not> has_col df ''type_name'' then Inr []
      else with_column df ''type_name''
        (let shots = select (is_type ''Shot'') df in
         if empty shots \<or> \<not> has_col shots ''shot_outcome'' then
           with_column shots ''team_id''
             (Inr (map (\<lambda>tid. (tid, 0)) (unique (map team_id (rows shots)))))
         else with_column shots ''shot_outcome''
           (let goals = select (\<lambda>e. shot_outcome e = Some ''Goal'') shots
            in with_column goals ''team_id''
                 (Inr (map (\<lambda>(tid, count). (Some tid, count))
                        (value_counts (map team_id (rows goals))))))))"

record position =
  avg_x :: real
  avg_y :: real

definition average_position_by_team :: "table \<Rightarrow> py_error + (int \<times> position) list" where
  "average_position_by_team df =
     (if empty df \<or> \<not> has_col df ''team_id'' then Inr []
      else with_column df ''x'' (with_column df ''y''
        (let valid = select (\<lambda>e. loc_x e \<noteq> None \<and> loc_y e \<noteq> None) df in
         if empty valid then Inr []
         else with_column valid ''team_id''
           (Inr (map (\<lambda>tid.
                   let team_events = select (\<lambda>e. team_id e = Some tid) valid
                   in (tid, \<lparr>avg_x = mean (dropna (map loc_x (rows team_events))),
                             avg_y = mean (dropna (map loc_y (rows team_events)))\<rparr>))
                 (unique (dropna (map team_id (rows valid)))))))))"

definition final_third_entries_by_team :: "table \<Rightarrow> py_error + (int \<times> nat) list" where
  "final_third_entries_by_team df =
     (if empty df \<or> \<not> has_col df ''team_id'' \<or> \<not> has_col df ''x'' then Inr []
      else with_column df ''x''
        (let valid = select (\<lambda>e. loc_x e \<noteq> None \<and> ge_na (loc_x e) 80) df in
         with_column valid ''team_id'' (Inr (value_counts (map team_id (rows valid))))))"

section \<open>Segment aggregator (features/aggregator.py)\<close>

text \<open>\<open>df.drop_duplicates("team_id")\<close>: the first row of each team id value.\<close>

fun first_rows :: "int option list \<Rightarrow> event list \<Rightarrow> event list" where
  "first_rows seen [] = []"
| "first_rows seen (r # rs) =
     (if team_id r \<in> set seen then first_rows seen rs
      else r # first_rows (team_id r # seen) rs)"

definition drop_duplicates_team_id :: "table \<Rightarrow> table" where
  "drop_duplicates_team_id df = df\<lparr>rows := first_rows [] (rows df)\<rparr>"

definition team_id_to_name_map :: "table \<Rightarrow> py_error + (int \<times> string) list" where
  "team_id_to_name_map df =
     (if empty df \<or> \<not> has_col df ''team_id'' then Inr []
      else
        (let name_col = has_col df ''team_name'' in
         with_column df ''team_id''
           (Inr (concat (map (\<lambda>row.
                   case team_id row of
                     None \<Rightarrow> []
                   | Some tid \<Rightarrow>
                       [(tid, case team_name row of
                                None \<Rightarrow> ''Team_'' @ str_int tid
                              | Some nm \<Rightarrow> if name_col then nm else ''Team_'' @ str_int tid)])
                 (rows (drop_duplicates_team_id df)))))))"

text \<open>
  One entry of \<open>teams\<close>.  A value that the dict may hold as Python's None is an option.
\<close>

record team_metrics =
  tm_team_id :: int
  tm_team_name :: string
  possession_share :: real
  passes :: nat
  passes_successful :: nat
  pass_completion_pct :: "real option"
  shots :: nat
  shots_on_target :: nat
  goals :: nat
  tm_avg_x :: "real option"
  tm_avg_y :: "real option"
  final_third_entries :: nat

record segment_totals =
  total_passes :: nat
  total_shots :: nat

record segment_result =
  segment :: string
  teams :: "team_metrics list"
  totals :: segment_totals

definition team_record ::
  "(int \<times> string) list \<Rightarrow> (string \<times> real) list \<Rightarrow> (int \<times> nat) list \<Rightarrow> (int \<times> nat) list
    \<Rightarrow> (int \<times> nat) list \<Rightarrow> (int \<times> nat) list \<Rightarrow> (int option \<times> nat) list
    \<Rightarrow> (int \<times> position) list \<Rightarrow> (int \<times> nat) list \<Rightarrow> int \<Rightarrow> team_metrics" where
  "team_record teams_map possession pass_counts pass_success shot_counts shots_ot goal_counts
      avg_pos final_third tid =
     (let name = dict_get teams_map tid (''Team_'' @ str_int tid);
          pct = dict_get possession (str_int tid) 0;
          n_passes = dict_get pass_counts tid 0;
          passes_ok = dict_get pass_success tid 0;
          pass_pct = (if n_passes \<noteq> 0 then Some (real passes_ok / real n_passes * 100) else None);
          n_shots = dict_get shot_counts tid 0;
          sot = dict_get shots_ot tid 0;
          g = dict_get goal_counts (Some tid) 0;
          pos = map_of avg_pos tid;
          ft = dict_get final_third tid 0
      in \<lparr>tm_team_id = tid,
          tm_team_name = name,
          possession_share = py_round pct 4,
          passes = n_passes,
          passes_successful = passes_ok,
          pass_completion_pct = (case pass_pct of None \<Rightarrow> None | Some v \<Rightarrow> Some (py_round v 2)),
          shots = n_shots,
          shots_on_target = sot,
          goals = g,
          tm_avg_x = Some (py_round (case pos of None \<Rightarrow> 0 | Some ps \<Rightarrow> avg_x ps) 2),
          tm_avg_y = Some (py_round (case pos of None \<Rightarrow> 0 | Some ps \<Rightarrow> avg_y ps) 2),
          final_third_entries = ft\<rparr>)"

definition compute_match_metrics :: "table \<Rightarrow> string \<Rightarrow> py_error + segment_result" where
  "compute_match_metrics df segment_label =
     and_then (team_id_to_name_map df) (\<lambda>teams_map.
     and_then (possession_share_from_passes df) (\<lambda>possession.
     and_then (pass_counts_by_team df) (\<lambda>pass_counts.
     and_then (successful_pass_counts_by_team df) (\<lambda>pass_success.
     and_then (shot_counts_by_team df) (\<lambda>shot_counts.
     and_then (shots_on_target_by_team df) (\<lambda>shots_ot.
     and_then (goals_by_team df) (\<lambda>goal_counts.
     and_then (average_position_by_team df) (\<lambda>avg_pos.
     and_then (final_third_entries_by_team df) (\<lambda>final_third.
       (let team_ids = sort (map fst teams_map);
            team_list = map (team_record teams_map possession pass_counts pass_success
                               shot_counts shots_ot goal_counts avg_pos final_third) team_ids
        in Inr \<lparr>segment = segment_label,
                teams = team_list,
                totals = \<lparr>total_passes = sum_list (map snd pass_counts),
                          total_shots = sum_list (map snd shot_counts)\<rparr>\<rparr>))))))))))"

section \<open>Spatial metrics (features/spatial.py)\<close>

record attack_distribution =
  left_flank_attacks_pct :: "real option"
  center_attacks_pct :: "real option"
  right_flank_attacks_pct :: "real option"
  attacking_half_actions :: nat
  final_third_dominance :: "real option"

definition no_attacks :: attack_distribution where
  "no_attacks = \<lparr>left_flank_attacks_pct = None, center_attacks_pct = None,
                 right_flank_attacks_pct = None, attacking_half_actions = 0,
                 final_third_dominance = None\<rparr>"

definition attack_distribution_by_zone :: "table \<Rightarrow> int \<Rightarrow> py_error + attack_distribution" where
  "attack_distribution_by_zone events_df tid =
     with_column events_df ''team_id''
       (let team_events = select (\<lambda>e. team_id e = Some tid) events_df;
            attacking_types = [''Pass'', ''Carry'', ''Dribble'', ''Shot'']
        in with_column team_events ''type_name'' (with_column team_events ''x''
             (with_column team_events ''y''
           (let attacking_events =
                  select (\<lambda>e. isin (type_name e) attacking_types \<and> loc_x e \<noteq> None \<and> loc_y e \<noteq> None)
                    team_events
            in if length (rows attacking_events) = 0 then Inr no_attacks
               else
                 (let attacking_half = select (\<lambda>e. gt_na (loc_x e) 60) attacking_events;
                      attacking_half_count = length (rows attacking_half)
                  in if attacking_half_count = 0 then Inr no_attacks
                     else
                       (let left_flank =
                              length (rows (select (\<lambda>e. lt_na (loc_y e) 26.67) attacking_half));
                            center =
                              length (rows (select (\<lambda>e. ge_na (loc_y e) 26.67 \<and> le_na (loc_y e) 53.33)
                                              attacking_half));
                            right_flank =
                              length (rows (select (\<lambda>e. gt_na (loc_y e) 53.33) attacking_half));
                            total = left_flank + center + right_flank;
                            left_pct = (if total > 0 then Some (real left_flank / real total) else None);
                            center_pct = (if total > 0 then Some (real center / real total) else None);
                            right_pct = (if total > 0 then Some (real right_flank / real total) else None);
                            final_third = select (\<lambda>e. gt_na (loc_x e) 80) attacking_half;
                            ys = dropna (map loc_y (rows final_third));
                            dominance =
                              (if length (rows final_third) > 0
                               then Some (min ((Max (set ys) - Min (set ys)) / 80) 1)
                               else None)
                        in Inr \<lparr>left_flank_attacks_pct = left_pct,
                                center_attacks_pct = center_pct,
                                right_flank_attacks_pct = right_pct,
                                attacking_half_actions = attacking_half_count,
                                final_third_dominance = dominance\<rparr>))))))"

record defensive_activity =
  high_press_actions :: nat
  low_block_actions :: nat
  possession_losses_attacking_third :: nat

definition defensive_zone_activity :: "table \<Rightarrow> int \<Rightarrow> py_error + defensive_activity" where
  "defensive_zone_activity events_df tid =
     with_column events_df ''team_id''
       (let team_events = select (\<lambda>e. team_id e = Some tid) events_df;
            defensive_types =
              [''Pressure'', ''Tackle'', ''Interception'', ''Block'', ''Clearance'', ''Duel'']
        in with_column team_events ''type_name'' (with_column team_events ''x''
           (let defensive_events =
                  select (\<lambda>e. isin (type_name e) defensive_types \<and> loc_x e \<noteq> None) team_events;
                high_press = length (rows (select (\<lambda>e. gt_na (loc_x e) 60) defensive_events));
                low_block = length (rows (select (\<lambda>e. lt_na (loc_x e) 40) defensive_events));
                loss_types = [''Dispossessed'', ''Miscontrol''];
                losses =
                  (if has_col team_events ''pass_outcome'' then
                     select (\<lambda>e. (isin (type_name e) loss_types
                                    \<or> (is_type ''Pass'' e \<and> pass_outcome e \<noteq> None))
                                  \<and> loc_x e \<noteq> None) team_events
                   else select (\<lambda>e. isin (type_name e) loss_types \<and> loc_x e \<noteq> None) team_events);
                losses_attacking_third = length (rows (select (\<lambda>e. gt_na (loc_x e) 80) losses))
            in Inr \<lparr>high_press_actions = high_press,
                    low_block_actions = low_block,
                    possession_losses_attacking_third = losses_attacking_third\<rparr>)))"

text \<open>
  \<open>Series.std()\<close> is the sample standard deviation; with fewer than two values it is
  NaN, which is a float and not Python's None.
\<close>

datatype py_float = NaN | Float real

definition std :: "real list \<Rightarrow> py_float" where
  "std vs =
     (if length vs < 2 then NaN
      else Float (sqrt (sum_list (map (\<lambda>v. (v - mean vs)\<^sup>2) vs) / real (length vs - 1))))"

record pass_concentration =
  pass_width_spread :: "py_float option"
  pass_depth_spread :: "py_float option"
  back_passes_pct :: "real option"

definition passing_concentration :: "table \<Rightarrow> int \<Rightarrow> py_error + pass_concentration" where
  "passing_concentration events_df tid =
     with_column events_df ''team_id'' (with_column events_df ''type_name''
       (with_column events_df ''x'' (with_column events_df ''y'' (with_column events_df ''end_x''
       (let team_passes =
              select (\<lambda>e. team_id e = Some tid \<and> is_type ''Pass'' e \<and> loc_x e \<noteq> None
                           \<and> loc_y e \<noteq> None \<and> end_x e \<noteq> None) events_df
        in if length (rows team_passes) = 0 then
             Inr \<lparr>pass_width_spread = None, pass_depth_spread = None, back_passes_pct = None\<rparr>
           else
             (let width_spread = std (dropna (map loc_y (rows team_passes)));
                  depth_spread = std (dropna (map loc_x (rows team_passes)));
                  backward =
                    length (rows (select (\<lambda>e. case (end_x e, loc_x e) of
                                                 (Some a, Some b) \<Rightarrow> a < b
                                               | _ \<Rightarrow> False) team_passes));
                  pct = (if length (rows team_passes) > 0
                         then Some (real backward / real (length (rows team_passes)))
                         else None)
              in Inr \<lparr>pass_width_spread = Some width_spread,
                      pass_depth_spread = Some depth_spread,
                      back_passes_pct = pct\<rparr>))))))"

text \<open>An event with every value missing, for writing example tables.\<close>

definition blank :: event where
  "blank = \<lparr>period = None, timestamp = None, type_name = None, team_id = None,
            team_name = None, loc_x = None, loc_y = None, end_x = None,
            pass_outcome = None, shot_outcome = None, seconds_col = None\<rparr>"

text \<open>
  A small match used in the examples: team 1 has three passes, one of them incomplete,
  and a shot that is a goal; team 2 has one pass and one saved shot, both without a
  recorded location.
\<close>

definition sample_events :: table where
  "sample_events =
     \<lparr>columns = [''team_id'', ''team_name'', ''type_name'', ''x'', ''y'', ''pass_outcome'',
                 ''shot_outcome''],
      rows = [blank\<lparr>team_id := Some 1, team_name := Some ''A'', type_name := Some ''Pass'',
                     loc_x := Some 60, loc_y := Some 40\<rparr>,
              blank\<lparr>team_id := Some 1, team_name := Some ''A'', type_name := Some ''Pass'',
                     loc_x := Some 61, loc_y := Some 41, pass_outcome := Some ''Incomplete''\<rparr>,
              blank\<lparr>team_id := Some 2, team_name := Some ''B'', type_name := Some ''Pass''\<rparr>,
              blank\<lparr>team_id := Some 1, team_name := Some ''A'', type_name := Some ''Pass'',
                     loc_x := Some 62, loc_y := Some 42\<rparr>,
              blank\<lparr>team_id := Some 1, team_name := Some ''A'', type_name := Some ''Shot'',
                     loc_x := Some 100, loc_y := Some 50, shot_outcome := Some ''Goal''\<rparr>,
              blank\<lparr>team_id := Some 2, team_name := Some ''B'', type_name := Some ''Shot'',
                     shot_outcome := Some ''Saved''\<rparr>]\<rparr>"

definition sample_team_1 :: team_metrics where
  "sample_team_1 =
     \<lparr>tm_team_id = 1, tm_team_name = ''A'', possession_share = 3 / 4,
      passes = 3, passes_successful = 2, pass_completion_pct = Some (6667 / 100),
      shots = 1, shots_on_target = 1, goals = 1,
      tm_avg_x = Some (283 / 4), tm_avg_y = Some (173 / 4),
      final_third_entries = 1\<rparr>"

definition sample_team_2 :: team_metrics where
  "sample_team_2 =
     \<lparr>tm_team_id = 2, tm_team_name = ''B'', possession_share = 1 / 4,
      passes = 1, passes_successful = 1, pass_completion_pct = Some 100,
      shots = 1, shots_on_target = 1, goals = 0,
      tm_avg_x = Some 0, tm_avg_y = Some 0,
      final_third_entries = 0\<rparr>"

definition sample_segment :: segment_result where
  "sample_segment =
     \<lparr>segment = ''full_match'',
      teams = [sample_team_1, sample_team_2],
      totals = \<lparr>total_passes = 4, total_shots = 2\<rparr>\<rparr>"

text \<open>The events of a team that carry a location, and the goals of a team.\<close>

definition has_location :: "event \<Rightarrow> bool" where
  "has_location e = (loc_x e \<noteq> None \<and> loc_y e \<noteq> None)"

definition located_events :: "table \<Rightarrow> int \<Rightarrow> event list" where
  "located_events df tid = filter (\<lambda>e. team_id e = Some tid \<and> has_location e) (rows df)"

definition shots_of :: "table \<Rightarrow> int \<Rightarrow> event list" where
  "shots_of df tid = filter (\<lambda>e. team_id e = Some tid \<and> is_type ''Shot'' e) (rows df)"

definition goals_of :: "table \<Rightarrow> int \<Rightarrow> event list" where
  "goals_of df tid = filter (\<lambda>e. shot_outcome e = Some ''Goal'') (shots_of df tid)"


text \<open>
  A table of the kind the unit tests build for the counting functions: team id and
  event type only, no coordinates.
\<close>

definition unlocated_passes :: table where
  "unlocated_passes =
     \<lparr>columns = [''team_id'', ''type_name''],
      rows = [blank\<lparr>team_id := Some 1, type_name := Some ''Pass''\<rparr>]\<rparr>"

text \<open>
  Attacking actions of one team in the opponent's half: one on each flank, two through
  the centre (one of them in the final third), and one pressure.
\<close>

definition sample_attacks :: table where
  "sample_attacks =
     \<lparr>columns = [''team_id'', ''type_name'', ''x'', ''y'', ''end_x''],
      rows = [blank\<lparr>team_id := Some 1, type_name := Some ''Pass'',
                     loc_x := Some 70, loc_y := Some 60, end_x := Some 75\<rparr>,
              blank\<lparr>team_id := Some 1, type_name := Some ''Pass'',
                     loc_x := Some 70, loc_y := Some 20, end_x := Some 65\<rparr>,
              blank\<lparr>team_id := Some 1, type_name := Some ''Carry'',
                     loc_x := Some 70, loc_y := Some 40\<rparr>,
              blank\<lparr>team_id := Some 1, type_name := Some ''Shot'',
                     loc_x := Some 90, loc_y := Some 40\<rparr>,
              blank\<lparr>team_id := Some 1, type_name := Some ''Pressure'',
                     loc_x := Some 70, loc_y := Some 40\<rparr>]\<rparr>"

definition sample_distribution :: attack_distribution where
  "sample_distribution =
     \<lparr>left_flank_attacks_pct = Some (1 / 4), center_attacks_pct = Some (1 / 2),
      right_flank_attacks_pct = Some (1 / 4), attacking_half_actions = 4,
      final_third_dominance = Some 0\<rparr>"

section \<open>Properties\<close>

lemma has_col_select [simp]: "has_col (select P df) c = has_col df c"
  by (simp add: has_col_def select_def)

lemma select_select_same [simp]: "select P (select P df) = select P df"
  by (simp add: select_def)

text \<open>
  C6: \<open>filter_by_period\<close> is idempotent: filtering an already filtered table by the
  same period returns the identical table (same columns, same rows in the same order).
\<close>

theorem filter_by_period_idempotent:
  "filter_by_period (filter_by_period df p) p = filter_by_period df p"
  by (simp add: filter_by_period_def)

theorem filter_by_period_idempotent_witness:
  "filter_by_period (filter_by_period
      \<lparr>columns = [''period''],
       rows = [blank\<lparr>period := Some 1\<rparr>, blank\<lparr>period := Some 2\<rparr>]\<rparr> 2) 2
   = \<lparr>columns = [''period''], rows = [blank\<lparr>period := Some 2\<rparr>]\<rparr>"
  using filter_by_period_idempotent
    [of "\<lparr>columns = [''period''],
          rows = [blank\<lparr>period := Some 1\<rparr>, blank\<lparr>period := Some 2\<rparr>]\<rparr>" 2]
  by (simp add: filter_by_period_def has_col_def select_def blank_def)

subsection \<open>The last-minutes window\<close>

text \<open>
  What \<open>_timestamp_to_seconds\<close> computes: 0 for a missing or malformed timestamp,
  \<open>h*3600 + m*60 + s\<close> for \<open>H:M:S\<close>, and the first three digits of the
  fraction as milliseconds on top when there is one.  The last lemma holds the values the
  unit tests assert.
\<close>

lemma timestamp_missing: "timestamp_to_seconds None = 0"
  by (simp add: timestamp_to_seconds_def)

lemma timestamp_malformed: "match_timestamp str = None \<Longrightarrow> timestamp_to_seconds (Some str) = 0"
  by (simp add: timestamp_to_seconds_def)

lemma digit_run:
  assumes "\<forall>c \<in> set ds. is_digit c" and "\<not> is_digit sep"
  shows "takeWhile is_digit (ds @ sep # rest) = ds"
    and "dropWhile is_digit (ds @ sep # rest) = sep # rest"
  using assms by (induction ds) auto

lemma digit_run_end:
  assumes "\<forall>c \<in> set ds. is_digit c"
  shows "takeWhile is_digit ds = ds" and "dropWhile is_digit ds = []"
  using assms by (induction ds) auto

lemma separators_not_digits: "\<not> is_digit CHR '':''" "\<not> is_digit CHR ''.''"
  by (simp_all add: is_digit_def)

lemma match_hms:
  assumes "h \<noteq> []" "m \<noteq> []" "s \<noteq> []"
    and "\<forall>c \<in> set h. is_digit c" "\<forall>c \<in> set m. is_digit c" "\<forall>c \<in> set s. is_digit c"
  shows "match_timestamp (h @ CHR '':'' # m @ CHR '':'' # s) = Some (h, m, s, [])"
  using assms
  by (simp add: match_timestamp_def Let_def digit_run digit_run_end separators_not_digits)

lemma match_hms_fraction:
  assumes "h \<noteq> []" "m \<noteq> []" "s \<noteq> []"
    and "\<forall>c \<in> set h. is_digit c" "\<forall>c \<in> set m. is_digit c" "\<forall>c \<in> set s. is_digit c"
    and "\<forall>c \<in> set ms. is_digit c"
  shows "match_timestamp (h @ CHR '':'' # m @ CHR '':'' # s @ CHR ''.'' # ms) = Some (h, m, s, ms)"
  using assms
  by (simp add: match_timestamp_def Let_def digit_run digit_run_end separators_not_digits)

lemma timestamp_to_seconds_hms:
  assumes "h \<noteq> []" "m \<noteq> []" "s \<noteq> []"
    and "\<forall>c \<in> set h. is_digit c" "\<forall>c \<in> set m. is_digit c" "\<forall>c \<in> set s. is_digit c"
  shows "timestamp_to_seconds (Some (h @ CHR '':'' # m @ CHR '':'' # s))
           = real (int_of_digits h * 3600 + int_of_digits m * 60 + int_of_digits s)"
  by (simp add: timestamp_to_seconds_def match_hms [OF assms])

lemma timestamp_to_seconds_hms_fraction:
  assumes "h \<noteq> []" "m \<noteq> []" "s \<noteq> []"
    and "\<forall>c \<in> set h. is_digit c" "\<forall>c \<in> set m. is_digit c" "\<forall>c \<in> set s. is_digit c"
    and "\<forall>c \<in> set ms. is_digit c" and "ms \<noteq> []"
  shows "timestamp_to_seconds (Some (h @ CHR '':'' # m @ CHR '':'' # s @ CHR ''.'' # ms))
           = real (int_of_digits h * 3600 + int_of_digits m * 60 + int_of_digits s)
             + real (int_of_digits (ljust3 ms)) / 1000"
  using assms(8)
  by (simp add: timestamp_to_seconds_def match_hms_fraction [OF assms(1-7)])

lemma timestamp_examples:
  "timestamp_to_seconds (Some ''00:00:00.000'') = 0"
  "timestamp_to_seconds (Some ''00:01:30.000'') = 90"
  "timestamp_to_seconds (Some ''00:45:00.000'') = 45 * 60"
  by (simp_all add: timestamp_to_seconds_def match_timestamp_def is_digit_def int_of_digits_def
      digit_val_def ljust3_def Let_def)

lemma set_dropna: "set (dropna xs) = {a. Some a \<in> set xs}"
  by (induction xs) (auto simp: dropna_def split: option.splits)

lemma set_unique_from: "set (unique_from seen vs) = set vs - set seen"
  by (induction vs arbitrary: seen) auto

lemma set_unique [simp]: "set (unique vs) = set vs"
  by (simp add: unique_def set_unique_from)









text \<open>
  When the latest event of the reference period is at 40 minutes, the cutoff for the last
  10 minutes is 35 minutes.
\<close>

lemma last_n_cutoff_floor:
  assumes "Max (elapsed ` set (filter (in_period (reference_period df period_arg)) (rows df)))
             = 40 * 60"
  shows "last_n_cutoff df 10 period_arg = 35 * 60"
  using assms by (simp add: last_n_cutoff_def)



subsection \<open>What the metric functions return\<close>

lemma with_column_has [simp]: "has_col df c \<Longrightarrow> with_column df c k = k"
  by (simp add: with_column_def)

lemma with_column_missing [simp]: "\<not> has_col df c \<Longrightarrow> with_column df c k = Inl (KeyError c)"
  by (simp add: with_column_def)

lemma rows_select [simp]: "rows (select P df) = filter P (rows df)"
  by (simp add: select_def)

lemma columns_select [simp]: "columns (select P df) = columns df"
  by (simp add: select_def)

lemma map_of_value_counts:
  "map_of (value_counts vs) k = (if Some k \<in> set vs then Some (count_list vs (Some k)) else None)"
  by (simp add: value_counts_def map_of_map_restrict restrict_map_def set_dropna)

lemma dict_get_value_counts: "dict_get (value_counts vs) k 0 = count_list vs (Some k)"
  by (simp add: dict_get_def map_of_value_counts count_list_0_iff)

lemma count_list_team_mono:
  "(\<And>e. P e \<Longrightarrow> Q e) \<Longrightarrow>
   count_list (map team_id (filter P es)) v \<le> count_list (map team_id (filter Q es)) v"
  by (induction es) auto

lemma pass_counts_returns:
  "pass_counts_by_team df =
     Inr (if empty df \<or> \<not> has_col df ''team_id'' \<or> \<not> has_col df ''type_name'' then []
          else value_counts (map team_id (filter (is_type ''Pass'') (rows df))))"
  by (simp add: pass_counts_by_team_def Let_def)

lemma shot_counts_returns:
  "shot_counts_by_team df =
     Inr (if empty df \<or> \<not> has_col df ''team_id'' \<or> \<not> has_col df ''type_name'' then []
          else value_counts (map team_id (filter (is_type ''Shot'') (rows df))))"
  by (simp add: shot_counts_by_team_def Let_def)

lemma ball_receipts_returns:
  "ball_receipts_by_team df =
     Inr (if empty df \<or> \<not> has_col df ''team_id'' \<or> \<not> has_col df ''type_name'' then []
          else value_counts (map team_id (filter (is_type ''Ball Receipt'') (rows df))))"
  by (simp add: ball_receipts_by_team_def Let_def)

lemma value_counts_Nil [simp]: "value_counts [] = []"
  by (simp add: value_counts_def dropna_def unique_def)

lemma filter_conj_Nil: "filter P es = [] \<Longrightarrow> filter (\<lambda>e. P e \<and> Q e) es = []"
  by (induction es) (auto split: if_splits)

lemma successful_pass_counts_returns:
  "successful_pass_counts_by_team df =
     Inr (if empty df \<or> \<not> has_col df ''team_id'' \<or> \<not> has_col df ''type_name'' then []
          else value_counts (map team_id (filter
                 (\<lambda>e. is_type ''Pass'' e \<and>
                      (has_col df ''pass_outcome'' \<longrightarrow>
                         pass_outcome e = None \<or> pass_outcome e = Some ''Complete''))
                 (rows df))))"
  by (auto simp: successful_pass_counts_by_team_def Let_def empty_def conj_commute filter_conj_Nil
      intro!: arg_cong[where f=value_counts] arg_cong[where f="map team_id"] filter_cong)

lemma shots_on_target_returns:
  "shots_on_target_by_team df =
     Inr (if empty df \<or> \<not> has_col df ''team_id'' \<or> \<not> has_col df ''type_name'' then []
          else value_counts (map team_id (filter
                 (\<lambda>e. is_type ''Shot'' e \<and>
                      (has_col df ''shot_outcome'' \<longrightarrow> isin (shot_outcome e) [''Saved'', ''Goal'']))
                 (rows df))))"
  by (auto simp: shots_on_target_by_team_def shot_counts_returns Let_def empty_def conj_commute
        filter_conj_Nil
      intro!: arg_cong[where f=value_counts] arg_cong[where f="map team_id"] filter_cong)

lemma final_third_entries_returns:
  "final_third_entries_by_team df =
     Inr (if empty df \<or> \<not> has_col df ''team_id'' \<or> \<not> has_col df ''x'' then []
          else value_counts (map team_id (filter (\<lambda>e. loc_x e \<noteq> None \<and> ge_na (loc_x e) 80) (rows df))))"
  by (simp add: final_third_entries_by_team_def Let_def)

lemma goals_returns:
  "goals_by_team df =
     Inr (if empty df \<or> \<not> has_col df ''team_id'' \<or> \<not> has_col df ''type_name'' then []
          else if filter (is_type ''Shot'') (rows df) = [] \<or> \<not> has_col df ''shot_outcome''
          then map (\<lambda>tid. (tid, 0)) (unique (map team_id (filter (is_type ''Shot'') (rows df))))
          else map (\<lambda>(tid, count). (Some tid, count))
                 (value_counts (map team_id (filter
                    (\<lambda>e. is_type ''Shot'' e \<and> shot_outcome e = Some ''Goal'') (rows df)))))"
  by (auto simp: goals_by_team_def Let_def empty_def conj_commute
      intro!: arg_cong[where f=value_counts] arg_cong[where f="map team_id"] filter_cong)

lemma possession_returns:
  "possession_share_from_passes df =
     Inr (if empty df \<or> \<not> has_col df ''team_id'' \<or> \<not> has_col df ''type_name'' then []
          else (let counts = value_counts (map team_id (filter (is_type ''Pass'') (rows df)));
                    total = sum_list (map snd counts)
                in map (\<lambda>(tid, count). (str_int tid, real count / real total)) counts))"
proof -
  have zero: "value_counts vs = []" if "\<forall>n\<in>set (value_counts vs). snd n = 0" for vs
  proof -
    have "count_list vs (Some k) = 0" if "k \<in> set (dropna vs)" for k
      using that \<open>\<forall>n\<in>set (value_counts vs). snd n = 0\<close>
      by (auto simp: value_counts_def)
    then have "set (dropna vs) = {}"
      by (auto simp: set_dropna count_list_0_iff)
    then show ?thesis
      by (simp add: value_counts_def unique_def)
  qed
  show ?thesis
    by (auto simp: possession_share_from_passes_def Let_def empty_def intro: zero)
qed

lemma team_id_to_name_map_returns: "\<exists>m. team_id_to_name_map df = Inr m"
  by (simp add: team_id_to_name_map_def Let_def)

subsection \<open>The sample match\<close>

lemmas eval_defs = sample_events_def blank_def has_col_def empty_def select_def
  with_column_def and_then_def dict_get_def value_counts_def dropna_def unique_def
  is_type_def isin_def Let_def

lemma sample_pass_counts: "pass_counts_by_team sample_events = Inr [(1, 3), (2, 1)]"
  by (simp add: pass_counts_by_team_def eval_defs)

lemma sample_success: "successful_pass_counts_by_team sample_events = Inr [(1, 2), (2, 1)]"
  by (simp add: successful_pass_counts_by_team_def eval_defs)

lemma sample_shots: "shot_counts_by_team sample_events = Inr [(1, 1), (2, 1)]"
  by (simp add: shot_counts_by_team_def eval_defs)

lemma sample_sot: "shots_on_target_by_team sample_events = Inr [(1, 1), (2, 1)]"
  by (simp add: shots_on_target_by_team_def eval_defs)

lemma sample_goals: "goals_by_team sample_events = Inr [(Some 1, 1)]"
  by (simp add: goals_by_team_def eval_defs)

lemma sample_avg: "average_position_by_team sample_events
    = Inr [(1, \<lparr>avg_x = 283 / 4, avg_y = 173 / 4\<rparr>)]"
  by (simp add: average_position_by_team_def mean_def eval_defs)

lemma sample_ft: "final_third_entries_by_team sample_events = Inr [(1, 1)]"
  by (simp add: final_third_entries_by_team_def ge_na_def eval_defs)

lemma str_int_1: "str_int 1 = ''1''"
  by (simp add: str_int_def str_nat.simps digit_char_def)
lemma str_int_2: "str_int 2 = ''2''"
  by (simp add: str_int_def str_nat.simps digit_char_def)

lemma sample_possession: "possession_share_from_passes sample_events = Inr [(''1'', 3 / 4), (''2'', 1 / 4)]"
  by (simp add: possession_share_from_passes_def eval_defs str_int_1 str_int_2)

lemma sample_names: "team_id_to_name_map sample_events = Inr [(1, ''A''), (2, ''B'')]"
  by (simp add: team_id_to_name_map_def drop_duplicates_team_id_def eval_defs)


lemma py_round_vals:
  "py_round (3 / 4) 4 = 3 / 4" "py_round (1 / 4) 4 = 1 / 4"
  "py_round (200 / 3) 2 = 6667 / 100" "py_round 100 2 = 100"
  "py_round (283 / 4) 2 = 283 / 4" "py_round (173 / 4) 2 = 173 / 4" "py_round 0 2 = 0"
  by (simp_all add: py_round_def Let_def)

lemma sample_metrics:
  "compute_match_metrics sample_events ''full_match'' = Inr sample_segment"
  by (simp add: compute_match_metrics_def sample_names sample_possession sample_pass_counts
      sample_success sample_shots sample_sot sample_goals sample_avg sample_ft
      and_then_def Let_def team_record_def dict_get_def str_int_1 str_int_2 py_round_vals
      sample_segment_def sample_team_1_def sample_team_2_def)

subsection \<open>Counts in a team record\<close>

lemma dict_get_Nil [simp]: "dict_get [] k dflt = dflt"
  by (simp add: dict_get_def)

lemma map_of_Some_keys:
  "map_of (map (\<lambda>k. (Some k, f k)) ks) (Some t) = (if t \<in> set ks then Some (f t) else None)"
  by (induction ks) auto

lemma dict_get_goal_counts:
  "dict_get (map (\<lambda>(tid, count). (Some tid, count)) (value_counts vs)) (Some t) 0
     = count_list vs (Some t)"
  by (simp add: dict_get_def value_counts_def comp_def map_of_Some_keys set_dropna count_list_0_iff)

lemma map_of_const: "map_of (map (\<lambda>k. (k, c)) ks) t = (if t \<in> set ks then Some c else None)"
  by (induction ks) auto

lemma dict_get_zero_counts: "dict_get (map (\<lambda>tid. (tid, 0)) ks) t 0 = (0::nat)"
  by (simp add: dict_get_def map_of_const)

lemma compute_match_metrics_Inr:
  assumes "compute_match_metrics df label = Inr res"
  obtains teams_map possession pass_counts pass_success shot_counts shots_ot goal_counts
    avg_pos final_third
  where "team_id_to_name_map df = Inr teams_map"
    and "possession_share_from_passes df = Inr possession"
    and "pass_counts_by_team df = Inr pass_counts"
    and "successful_pass_counts_by_team df = Inr pass_success"
    and "shot_counts_by_team df = Inr shot_counts"
    and "shots_on_target_by_team df = Inr shots_ot"
    and "goals_by_team df = Inr goal_counts"
    and "average_position_by_team df = Inr avg_pos"
    and "final_third_entries_by_team df = Inr final_third"
    and "teams res = map (team_record teams_map possession pass_counts pass_success
                            shot_counts shots_ot goal_counts avg_pos final_third)
                       (sort (map fst teams_map))"
    and "totals res = \<lparr>total_passes = sum_list (map snd pass_counts),
                        total_shots = sum_list (map snd shot_counts)\<rparr>"
    and "segment res = label"
  using assms
  by (auto simp: compute_match_metrics_def and_then_def Let_def split: sum.splits)

lemma successful_le_passes:
  assumes "pass_counts_by_team df = Inr pc" "successful_pass_counts_by_team df = Inr ps"
  shows "dict_get ps tid 0 \<le> dict_get pc tid 0"
  using assms unfolding pass_counts_returns successful_pass_counts_returns
  by (auto simp: dict_get_value_counts intro: count_list_team_mono)

lemma on_target_le_shots:
  assumes "shot_counts_by_team df = Inr sc" "shots_on_target_by_team df = Inr so"
  shows "dict_get so tid 0 \<le> dict_get sc tid 0"
  using assms unfolding shot_counts_returns shots_on_target_returns
  by (auto simp: dict_get_value_counts intro: count_list_team_mono)

lemma goals_le_on_target:
  assumes "goals_by_team df = Inr g" "shots_on_target_by_team df = Inr so"
  shows "dict_get g (Some tid) 0 \<le> dict_get so tid 0"
  using assms unfolding goals_returns shots_on_target_returns
  by (auto simp: dict_get_value_counts dict_get_goal_counts dict_get_zero_counts isin_def
      intro!: count_list_team_mono split: if_splits)

text \<open>
  C10: in every team record that \<open>compute_match_metrics\<close> produces, the
  successful passes do not exceed the passes, the goals do not exceed the shots on
  target, and the shots on target do not exceed the shots; the fallback paths for a
  missing \<open>pass_outcome\<close> or \<open>shot_outcome\<close> column are included.
\<close>

theorem count_consistency:
  assumes "compute_match_metrics df label = Inr res" and "r \<in> set (teams res)"
  shows "passes_successful r \<le> passes r \<and> goals r \<le> shots_on_target r
           \<and> shots_on_target r \<le> shots r"
proof -
  from assms(1) obtain teams_map possession pass_counts pass_success shot_counts shots_ot
    goal_counts avg_pos final_third
    where calls: "pass_counts_by_team df = Inr pass_counts"
      "successful_pass_counts_by_team df = Inr pass_success"
      "shot_counts_by_team df = Inr shot_counts"
      "shots_on_target_by_team df = Inr shots_ot"
      "goals_by_team df = Inr goal_counts"
    and teams: "teams res = map (team_record teams_map possession pass_counts pass_success
                            shot_counts shots_ot goal_counts avg_pos final_third)
                       (sort (map fst teams_map))"
    by (rule compute_match_metrics_Inr)
  from assms(2) teams obtain tid
    where r: "r = team_record teams_map possession pass_counts pass_success
                            shot_counts shots_ot goal_counts avg_pos final_third tid"
    by auto
  show ?thesis
    unfolding r
    using successful_le_passes [OF calls(1,2), of tid]
      on_target_le_shots [OF calls(3,4), of tid]
      goals_le_on_target [OF calls(5,4), of tid]
    by (simp add: team_record_def Let_def)
qed

theorem count_consistency_witness:
  "compute_match_metrics sample_events ''full_match'' = Inr sample_segment
   \<and> sample_team_1 \<in> set (teams sample_segment)
   \<and> passes_successful sample_team_1 \<le> passes sample_team_1
   \<and> goals sample_team_1 \<le> shots_on_target sample_team_1
   \<and> shots_on_target sample_team_1 \<le> shots sample_team_1"
  using count_consistency [OF sample_metrics, of sample_team_1] sample_metrics
  by (simp add: sample_segment_def)

subsection \<open>Derived fields of a team record\<close>

lemma team_record_in_result:
  assumes "compute_match_metrics df label = Inr res" and "r \<in> set (teams res)"
  obtains teams_map possession pass_counts pass_success shot_counts shots_ot goal_counts
    avg_pos final_third tid
  where "pass_counts_by_team df = Inr pass_counts"
    and "successful_pass_counts_by_team df = Inr pass_success"
    and "average_position_by_team df = Inr avg_pos"
    and "r = team_record teams_map possession pass_counts pass_success
               shot_counts shots_ot goal_counts avg_pos final_third tid"
proof -
  from assms(1) obtain teams_map possession pass_counts pass_success shot_counts shots_ot
    goal_counts avg_pos final_third
    where calls: "pass_counts_by_team df = Inr pass_counts"
      "successful_pass_counts_by_team df = Inr pass_success"
      "average_position_by_team df = Inr avg_pos"
    and teams: "teams res = map (team_record teams_map possession pass_counts pass_success
                            shot_counts shots_ot goal_counts avg_pos final_third)
                       (sort (map fst teams_map))"
    by (rule compute_match_metrics_Inr)
  from assms(2) teams obtain tid
    where "r = team_record teams_map possession pass_counts pass_success
                            shot_counts shots_ot goal_counts avg_pos final_third tid"
    by auto
  with calls show thesis by (rule that)
qed

lemma team_record_fields:
  "tm_team_id (team_record tm po pc ps sc so g av ft tid) = tid"
  "passes (team_record tm po pc ps sc so g av ft tid) = dict_get pc tid 0"
  "passes_successful (team_record tm po pc ps sc so g av ft tid) = dict_get ps tid 0"
  "pass_completion_pct (team_record tm po pc ps sc so g av ft tid) =
     (if dict_get pc tid 0 \<noteq> 0
      then Some (py_round (real (dict_get ps tid 0) / real (dict_get pc tid 0) * 100) 2)
      else None)"
  "tm_avg_x (team_record tm po pc ps sc so g av ft tid) =
     Some (py_round (case map_of av tid of None \<Rightarrow> 0 | Some ps \<Rightarrow> avg_x ps) 2)"
  "tm_avg_y (team_record tm po pc ps sc so g av ft tid) =
     Some (py_round (case map_of av tid of None \<Rightarrow> 0 | Some ps \<Rightarrow> avg_y ps) 2)"
  by (simp_all add: team_record_def Let_def)




lemma average_position_keys:
  assumes "average_position_by_team df = Inr avg_pos" and "map_of avg_pos tid = Some ps"
  shows "located_events df tid \<noteq> []"
proof -
  from assms(2) have "tid \<in> fst ` set avg_pos"
    by (metis map_of_eq_None_iff option.distinct(1))
  with assms(1) have "Some tid \<in> team_id ` set (filter has_location (rows df))"
    by (auto simp: average_position_by_team_def with_column_def Let_def set_dropna
        has_location_def image_iff split: if_splits)
  then obtain e where "e \<in> set (rows df)" "team_id e = Some tid" "has_location e"
    by auto
  then have "e \<in> set (located_events df tid)"
    by (simp add: located_events_def)
  then show ?thesis by auto
qed

lemma py_round_0 [simp]: "py_round 0 n = 0"
  by (simp add: py_round_def)

text \<open>
  C4 (as amended): for a team none of whose events has both coordinates, the record that
  \<open>compute_match_metrics\<close> produces holds the default 0 in \<open>avg_x\<close> and
  \<open>avg_y\<close>: the aggregator reads the position with \<open>pos.get("avg_x", 0)\<close>.
\<close>

theorem average_position_defaults_to_zero:
  assumes "compute_match_metrics df label = Inr res" and "r \<in> set (teams res)"
    and "located_events df (tm_team_id r) = []"
  shows "tm_avg_x r = Some 0 \<and> tm_avg_y r = Some 0"
proof -
  from assms(1,2) obtain teams_map possession pass_counts pass_success shot_counts shots_ot
    goal_counts avg_pos final_third tid
    where avg: "average_position_by_team df = Inr avg_pos"
      and r: "r = team_record teams_map possession pass_counts pass_success
               shot_counts shots_ot goal_counts avg_pos final_third tid"
    by (rule team_record_in_result)
  from assms(3) have "located_events df tid = []"
    by (simp add: r team_record_fields)
  with average_position_keys [OF avg] have "map_of avg_pos tid = None"
    by (cases "map_of avg_pos tid") auto
  then show ?thesis
    by (simp add: r team_record_fields)
qed

theorem average_position_defaults_to_zero_witness:
  "compute_match_metrics sample_events ''full_match'' = Inr sample_segment
   \<and> sample_team_2 \<in> set (teams sample_segment)
   \<and> located_events sample_events (tm_team_id sample_team_2) = []
   \<and> tm_avg_x sample_team_2 = Some 0 \<and> tm_avg_y sample_team_2 = Some 0"
proof -
  have none: "located_events sample_events (tm_team_id sample_team_2) = []"
    by (simp add: located_events_def has_location_def sample_events_def sample_team_2_def blank_def)
  have mem: "sample_team_2 \<in> set (teams sample_segment)"
    by (simp add: sample_segment_def)
  show ?thesis
    using average_position_defaults_to_zero [OF sample_metrics mem none] sample_metrics mem none
    by simp
qed

text \<open>
  Team 2 of the sample match has no located event, and its average position is a number,
  not None.
\<close>

theorem average_position_null_counterexample:
  "compute_match_metrics sample_events ''full_match'' = Inr sample_segment
   \<and> sample_team_2 \<in> set (teams sample_segment)
   \<and> located_events sample_events (tm_team_id sample_team_2) = []
   \<and> tm_avg_x sample_team_2 \<noteq> None \<and> tm_avg_y sample_team_2 \<noteq> None"
  using sample_metrics
  by (simp add: sample_segment_def located_events_def has_location_def sample_events_def
      sample_team_2_def blank_def)

subsection \<open>Failure behaviour of the aggregator\<close>

text \<open>An empty table gives an empty team list and zero totals.\<close>

lemma compute_match_metrics_empty:
  assumes "empty df"
  shows "compute_match_metrics df label
           = Inr \<lparr>segment = label, teams = [],
                  totals = \<lparr>total_passes = 0, total_shots = 0\<rparr>\<rparr>"
  using assms
  by (simp add: compute_match_metrics_def and_then_def team_id_to_name_map_def
      possession_returns pass_counts_returns successful_pass_counts_returns shot_counts_returns
      shots_on_target_returns goals_returns final_third_entries_returns
      average_position_by_team_def)

text \<open>
  C8: \<open>compute_match_metrics\<close> is specified never to raise.  On a non-empty table
  that has a \<open>team_id\<close> column but no \<open>x\<close> column,
  \<open>average_position_by_team\<close> reads \<open>df["x"]\<close> without the column check its
  sibling \<open>final_third_entries_by_team\<close> makes, and the KeyError leaves the aggregator.
\<close>

theorem compute_match_metrics_raises_without_x:
  "compute_match_metrics unlocated_passes ''full_match'' = Inl (KeyError ''x'')"
  by (simp add: compute_match_metrics_def and_then_def team_id_to_name_map_def
      possession_returns pass_counts_returns successful_pass_counts_returns shot_counts_returns
      shots_on_target_returns goals_returns final_third_entries_returns
      average_position_by_team_def with_column_def has_col_def empty_def Let_def
      unlocated_passes_def)

subsection \<open>Attacking zones\<close>

lemma zone_partition:
  assumes "a \<le> b" and "\<forall>e \<in> set es. loc_y e \<noteq> None"
  shows "length (filter (\<lambda>e. lt_na (loc_y e) a) es)
           + length (filter (\<lambda>e. ge_na (loc_y e) a \<and> le_na (loc_y e) b) es)
           + length (filter (\<lambda>e. gt_na (loc_y e) b) es)
         = length es"
  using assms(2)
proof (induction es)
  case Nil
  then show ?case by simp
next
  case (Cons e es)
  from Cons.prems obtain v where v: "loc_y e = Some v" by auto
  from Cons have IH: "length (filter (\<lambda>e. lt_na (loc_y e) a) es)
           + length (filter (\<lambda>e. ge_na (loc_y e) a \<and> le_na (loc_y e) b) es)
           + length (filter (\<lambda>e. gt_na (loc_y e) b) es)
         = length es" by simp
  consider "v < a" | "a \<le> v \<and> v \<le> b" | "b < v" by linarith
  then show ?case
    using IH assms(1) by cases (simp_all add: v lt_na_def ge_na_def le_na_def gt_na_def)
qed

lemma shares_sum:
  fixes l c r :: nat
  assumes "0 < l + c + r"
  shows "real l / real (l + c + r) + real c / real (l + c + r) + real r / real (l + c + r) = 1"
proof -
  have nz: "real (l + c + r) \<noteq> 0"
    using assms by (simp del: of_nat_add)
  have "real l / real (l + c + r) + real c / real (l + c + r) + real r / real (l + c + r)
          = real (l + c + r) / real (l + c + r)"
    by (simp only: add_divide_distrib of_nat_add)
  with nz show ?thesis by (simp del: of_nat_add)
qed

lemma attack_distribution_columns:
  assumes "attack_distribution_by_zone events_df tid = Inr res"
  shows "has_col events_df ''team_id''" "has_col events_df ''type_name''"
    "has_col events_df ''x''" "has_col events_df ''y''"
proof -
  show c1: "has_col events_df ''team_id''"
    by (rule ccontr) (use assms in \<open>simp add: attack_distribution_by_zone_def\<close>)
  show c2: "has_col events_df ''type_name''"
    by (rule ccontr) (use assms c1 in \<open>simp add: attack_distribution_by_zone_def Let_def\<close>)
  show c3: "has_col events_df ''x''"
    by (rule ccontr) (use assms c1 c2 in \<open>simp add: attack_distribution_by_zone_def Let_def\<close>)
  show "has_col events_df ''y''"
    by (rule ccontr) (use assms c1 c2 c3 in \<open>simp add: attack_distribution_by_zone_def Let_def\<close>)
qed

text \<open>
  C9: whenever \<open>attack_distribution_by_zone\<close> reports a positive
  \<open>attacking_half_actions\<close>, the left, centre and right shares are all present and
  sum to 1 (in exact arithmetic), because every attacking-half event has a \<open>y\<close> and
  falls in exactly one of the three bands.
\<close>

theorem attack_distribution_zone_shares:
  assumes "attack_distribution_by_zone events_df tid = Inr res"
    and "0 < attacking_half_actions res"
  shows "\<exists>l c r. left_flank_attacks_pct res = Some l \<and> center_attacks_pct res = Some c
           \<and> right_flank_attacks_pct res = Some r \<and> l + c + r = 1"
proof -
  define ae where "ae = filter (\<lambda>e. isin (type_name e) [''Pass'', ''Carry'', ''Dribble'', ''Shot'']
                        \<and> loc_x e \<noteq> None \<and> loc_y e \<noteq> None)
         (filter (\<lambda>e. team_id e = Some tid) (rows events_df))"
  define ah where "ah = filter (\<lambda>e. gt_na (loc_x e) 60) ae"
  define l where "l = length (filter (\<lambda>e. lt_na (loc_y e) 26.67) ah)"
  define c where "c = length (filter (\<lambda>e. ge_na (loc_y e) 26.67 \<and> le_na (loc_y e) 53.33) ah)"
  define r where "r = length (filter (\<lambda>e. gt_na (loc_y e) 53.33) ah)"
  define dom where "dom = (if length (filter (\<lambda>e. gt_na (loc_x e) 80) ah) > 0
           then Some (min ((Max (set (dropna (map loc_y (filter (\<lambda>e. gt_na (loc_x e) 80) ah))))
                            - Min (set (dropna (map loc_y (filter (\<lambda>e. gt_na (loc_x e) 80) ah))))) / 80) 1)
           else None)"
  have "\<forall>e \<in> set ah. loc_y e \<noteq> None"
    by (simp add: ah_def ae_def)
  then have total: "l + c + r = length ah"
    unfolding l_def c_def r_def by (intro zone_partition) simp_all
  have unfold: "attack_distribution_by_zone events_df tid =
      (if length ae = 0 then Inr no_attacks
       else if length ah = 0 then Inr no_attacks
       else Inr \<lparr>left_flank_attacks_pct = (if l + c + r > 0 then Some (real l / real (l + c + r)) else None),
        center_attacks_pct = (if l + c + r > 0 then Some (real c / real (l + c + r)) else None),
        right_flank_attacks_pct = (if l + c + r > 0 then Some (real r / real (l + c + r)) else None),
        attacking_half_actions = length ah,
        final_third_dominance = dom\<rparr>)"
    unfolding attack_distribution_by_zone_def Let_def ae_def ah_def l_def c_def r_def dom_def
    by (simp only: with_column_has has_col_select rows_select
        attack_distribution_columns [OF assms(1)])
  have "length ae \<noteq> 0 \<and> length ah \<noteq> 0"
    using assms unfolding unfold by (auto simp: no_attacks_def split: if_splits)
  with assms(1) have res: "res = \<lparr>left_flank_attacks_pct = Some (real l / real (l + c + r)),
        center_attacks_pct = Some (real c / real (l + c + r)),
        right_flank_attacks_pct = Some (real r / real (l + c + r)),
        attacking_half_actions = length ah,
        final_third_dominance = dom\<rparr>"
    unfolding unfold by (auto simp: total)
  have pos: "0 < l + c + r"
    using \<open>length ae \<noteq> 0 \<and> length ah \<noteq> 0\<close> by (simp add: total)
  show ?thesis
    using shares_sum [OF pos] by (simp add: res)
qed

lemma sample_attack_distribution:
  "attack_distribution_by_zone sample_attacks 1 = Inr sample_distribution"
  by (simp add: attack_distribution_by_zone_def sample_attacks_def sample_distribution_def
      with_column_def has_col_def select_def isin_def gt_na_def lt_na_def ge_na_def le_na_def
      dropna_def blank_def Let_def)

theorem attack_distribution_zone_shares_witness:
  "attack_distribution_by_zone sample_attacks 1 = Inr sample_distribution
   \<and> 0 < attacking_half_actions sample_distribution
   \<and> (\<exists>l c r. left_flank_attacks_pct sample_distribution = Some l
         \<and> center_attacks_pct sample_distribution = Some c
         \<and> right_flank_attacks_pct sample_distribution = Some r \<and> l + c + r = 1)"
proof -
  have pos: "0 < attacking_half_actions sample_distribution"
    by (simp add: sample_distribution_def)
  from attack_distribution_zone_shares [OF sample_attack_distribution pos]
    sample_attack_distribution pos
  show ?thesis by blast
qed


subsection \<open>Possession shares\<close>


















subsection \<open>Goals by team\<close>

lemma count_list_map_filter: "count_list (map f xs) v = length (filter (\<lambda>x. f x = v) xs)"
  by (induction xs) auto

text \<open>
  C3 (as amended): on a table with \<open>team_id\<close> and \<open>type_name\<close> columns, a team
  with at least one Shot event is present in \<open>goals_by_team\<close> with the value 0 when
  the \<open>shot_outcome\<close> column is absent; when the column is present the team is
  present exactly if it has a goal, with its number of goals, and a team with shots but
  no goal is absent (the callers read it with the default 0).
\<close>

theorem goals_by_team_presence:
  assumes "has_col df ''team_id''" and "has_col df ''type_name''" and "shots_of df tid \<noteq> []"
  shows "\<exists>g. goals_by_team df = Inr g
           \<and> (\<not> has_col df ''shot_outcome'' \<longrightarrow> map_of g (Some tid) = Some 0)
           \<and> (has_col df ''shot_outcome'' \<longrightarrow>
                map_of g (Some tid)
                  = (if goals_of df tid = [] then None else Some (length (goals_of df tid))))"
proof -
  from assms(3) obtain e where e: "e \<in> set (rows df)" "team_id e = Some tid" "is_type ''Shot'' e"
    by (auto simp: shots_of_def filter_empty_conv)
  then have shots: "filter (is_type ''Shot'') (rows df) \<noteq> []"
    by (auto simp: filter_empty_conv)
  from e assms(1) have ne: "\<not> empty df"
    by (auto simp: empty_def has_col_def)
  have goals_len: "count_list (map team_id (filter (\<lambda>e. is_type ''Shot'' e \<and> shot_outcome e = Some ''Goal'') (rows df))) (Some tid)
      = length (goals_of df tid)"
    by (simp add: count_list_map_filter goals_of_def shots_of_def conj_commute conj_left_commute)
  show ?thesis
  proof (cases "has_col df ''shot_outcome''")
    case False
    have "Some tid \<in> set (unique (map team_id (filter (is_type ''Shot'') (rows df))))"
      using e by force
    with False assms(1,2) ne show ?thesis
      by (simp add: goals_returns map_of_const)
  next
    case True
    have "map_of (map (\<lambda>(tid, count). (Some tid, count)) (value_counts vs)) (Some tid)
            = (if count_list vs (Some tid) = 0 then None else Some (count_list vs (Some tid)))" for vs
      by (simp add: value_counts_def comp_def map_of_Some_keys set_dropna count_list_0_iff)
    with True assms(1,2) ne shots show ?thesis
      by (simp add: goals_returns goals_len)
  qed
qed

theorem goals_by_team_presence_witness:
  "has_col sample_events ''team_id'' \<and> has_col sample_events ''type_name''
   \<and> has_col sample_events ''shot_outcome''
   \<and> shots_of sample_events 1 \<noteq> [] \<and> length (goals_of sample_events 1) = 1
   \<and> (\<exists>g. goals_by_team sample_events = Inr g \<and> map_of g (Some 1) = Some 1)"
proof -
  have cols: "has_col sample_events ''team_id''" "has_col sample_events ''type_name''"
    "has_col sample_events ''shot_outcome''"
    by (simp_all add: has_col_def sample_events_def)
  have shots: "shots_of sample_events 1 \<noteq> []"
    by (simp add: shots_of_def sample_events_def is_type_def blank_def)
  have goals: "length (goals_of sample_events 1) = 1"
    by (simp add: goals_of_def shots_of_def sample_events_def is_type_def blank_def)
  from goals have "goals_of sample_events 1 \<noteq> []" by auto
  with goals_by_team_presence [OF cols(1,2) shots] cols shots goals
  show ?thesis by auto
qed

text \<open>
  Team 2 of the sample match has a saved shot and no goal, and is not a key of the result.
\<close>

theorem goals_by_team_absent_counterexample:
  "has_col sample_events ''shot_outcome''
   \<and> shots_of sample_events 2 \<noteq> []
   \<and> goals_by_team sample_events = Inr [(Some 1, 1)]
   \<and> map_of [(Some (1::int), 1::nat)] (Some 2) = None"
  using sample_goals
  by (simp add: has_col_def shots_of_def sample_events_def is_type_def blank_def)

subsection \<open>Which metric functions return\<close>

lemma attack_distribution_returns:
  assumes "has_col df ''team_id''" "has_col df ''type_name''" "has_col df ''x''" "has_col df ''y''"
  shows "\<exists>r. attack_distribution_by_zone df tid = Inr r"
  unfolding attack_distribution_by_zone_def Let_def
  by (simp only: with_column_has has_col_select assms split: if_split) blast

lemma defensive_zone_activity_columns:
  assumes "defensive_zone_activity df tid = Inr res"
  shows "has_col df ''team_id''" "has_col df ''type_name''" "has_col df ''x''"
proof -
  show c1: "has_col df ''team_id''"
    by (rule ccontr) (use assms in \<open>simp add: defensive_zone_activity_def\<close>)
  show c2: "has_col df ''type_name''"
    by (rule ccontr) (use assms c1 in \<open>simp add: defensive_zone_activity_def Let_def\<close>)
  show "has_col df ''x''"
    by (rule ccontr) (use assms c1 c2 in \<open>simp add: defensive_zone_activity_def Let_def\<close>)
qed

lemma defensive_zone_activity_returns:
  assumes "has_col df ''team_id''" "has_col df ''type_name''" "has_col df ''x''"
  shows "\<exists>r. defensive_zone_activity df tid = Inr r"
  unfolding defensive_zone_activity_def Let_def
  by (simp only: with_column_has has_col_select assms) blast

lemma passing_concentration_columns:
  assumes "passing_concentration df tid = Inr res"
  shows "has_col df ''team_id''" "has_col df ''type_name''" "has_col df ''x''"
    "has_col df ''y''" "has_col df ''end_x''"
proof -
  show c1: "has_col df ''team_id''"
    by (rule ccontr) (use assms in \<open>simp add: passing_concentration_def\<close>)
  show c2: "has_col df ''type_name''"
    by (rule ccontr) (use assms c1 in \<open>simp add: passing_concentration_def\<close>)
  show c3: "has_col df ''x''"
    by (rule ccontr) (use assms c1 c2 in \<open>simp add: passing_concentration_def\<close>)
  show c4: "has_col df ''y''"
    by (rule ccontr) (use assms c1 c2 c3 in \<open>simp add: passing_concentration_def\<close>)
  show "has_col df ''end_x''"
    by (rule ccontr) (use assms c1 c2 c3 c4 in \<open>simp add: passing_concentration_def\<close>)
qed

lemma passing_concentration_returns:
  assumes "has_col df ''team_id''" "has_col df ''type_name''" "has_col df ''x''"
    "has_col df ''y''" "has_col df ''end_x''"
  shows "\<exists>r. passing_concentration df tid = Inr r"
  unfolding passing_concentration_def Let_def
  by (simp only: with_column_has assms split: if_split) blast

lemma average_position_returns:
  assumes "empty df \<or> \<not> has_col df ''team_id'' \<or> (has_col df ''x'' \<and> has_col df ''y'')"
  shows "\<exists>r. average_position_by_team df = Inr r"
proof (cases "empty df \<or> \<not> has_col df ''team_id''")
  case True
  then show ?thesis
    by (simp add: average_position_by_team_def)
next
  case False
  with assms have "has_col df ''x''" "has_col df ''y''" "has_col df ''team_id''" by auto
  then show ?thesis
    unfolding average_position_by_team_def Let_def
    by (simp only: with_column_has has_col_select split: if_split) blast
qed

text \<open>
  C2 (as amended): the counting functions of metrics.py (possession share, ball receipts,
  passes, successful passes, shots, shots on target, goals, final-third entries) return
  on every table, with the empty dict when the table is empty or lacks a column they
  guard.  \<open>average_position_by_team\<close> returns the empty dict on an empty table or
  one without \<open>team_id\<close>, and returns whenever the \<open>x\<close> and \<open>y\<close> columns
  exist.  The spatial functions have no column guards: \<open>attack_distribution_by_zone\<close>
  returns exactly when \<open>team_id\<close>, \<open>type_name\<close>, \<open>x\<close> and \<open>y\<close> exist,
  \<open>defensive_zone_activity\<close> exactly when \<open>team_id\<close>, \<open>type_name\<close> and
  \<open>x\<close> exist (\<open>pass_outcome\<close> is optional), and \<open>passing_concentration\<close>
  exactly when \<open>team_id\<close>, \<open>type_name\<close>, \<open>x\<close>, \<open>y\<close> and \<open>end_x\<close>
  exist; otherwise they raise KeyError.
\<close>

theorem metric_functions_return:
  "(\<exists>r. possession_share_from_passes df = Inr r)
   \<and> (\<exists>r. ball_receipts_by_team df = Inr r)
   \<and> (\<exists>r. pass_counts_by_team df = Inr r)
   \<and> (\<exists>r. successful_pass_counts_by_team df = Inr r)
   \<and> (\<exists>r. shot_counts_by_team df = Inr r)
   \<and> (\<exists>r. shots_on_target_by_team df = Inr r)
   \<and> (\<exists>r. goals_by_team df = Inr r)
   \<and> (\<exists>r. final_third_entries_by_team df = Inr r)
   \<and> (empty df \<or> \<not> has_col df ''team_id'' \<or> \<not> has_col df ''type_name'' \<longrightarrow>
         possession_share_from_passes df = Inr [] \<and> ball_receipts_by_team df = Inr []
         \<and> pass_counts_by_team df = Inr [] \<and> successful_pass_counts_by_team df = Inr []
         \<and> shot_counts_by_team df = Inr [] \<and> shots_on_target_by_team df = Inr []
         \<and> goals_by_team df = Inr [])
   \<and> (empty df \<or> \<not> has_col df ''team_id'' \<or> \<not> has_col df ''x'' \<longrightarrow>
         final_third_entries_by_team df = Inr [])
   \<and> (empty df \<or> \<not> has_col df ''team_id'' \<longrightarrow> average_position_by_team df = Inr [])
   \<and> (has_col df ''x'' \<and> has_col df ''y'' \<longrightarrow> (\<exists>r. average_position_by_team df = Inr r))
   \<and> ((\<exists>r. attack_distribution_by_zone df tid = Inr r) \<longleftrightarrow>
         has_col df ''team_id'' \<and> has_col df ''type_name'' \<and> has_col df ''x'' \<and> has_col df ''y'')
   \<and> ((\<exists>r. defensive_zone_activity df tid = Inr r) \<longleftrightarrow>
         has_col df ''team_id'' \<and> has_col df ''type_name'' \<and> has_col df ''x'')
   \<and> ((\<exists>r. passing_concentration df tid = Inr r) \<longleftrightarrow>
         has_col df ''team_id'' \<and> has_col df ''type_name'' \<and> has_col df ''x''
         \<and> has_col df ''y'' \<and> has_col df ''end_x'')"
proof -
  have guarded: "(\<exists>r. possession_share_from_passes df = Inr r)
   \<and> (\<exists>r. ball_receipts_by_team df = Inr r)
   \<and> (\<exists>r. pass_counts_by_team df = Inr r)
   \<and> (\<exists>r. successful_pass_counts_by_team df = Inr r)
   \<and> (\<exists>r. shot_counts_by_team df = Inr r)
   \<and> (\<exists>r. shots_on_target_by_team df = Inr r)
   \<and> (\<exists>r. goals_by_team df = Inr r)
   \<and> (\<exists>r. final_third_entries_by_team df = Inr r)"
    by (simp only: possession_returns ball_receipts_returns pass_counts_returns
        successful_pass_counts_returns shot_counts_returns shots_on_target_returns
        goals_returns final_third_entries_returns) blast
  have defaults: "empty df \<or> \<not> has_col df ''team_id'' \<or> \<not> has_col df ''type_name'' \<longrightarrow>
         possession_share_from_passes df = Inr [] \<and> ball_receipts_by_team df = Inr []
         \<and> pass_counts_by_team df = Inr [] \<and> successful_pass_counts_by_team df = Inr []
         \<and> shot_counts_by_team df = Inr [] \<and> shots_on_target_by_team df = Inr []
         \<and> goals_by_team df = Inr []"
    by (simp add: possession_share_from_passes_def ball_receipts_by_team_def
        pass_counts_by_team_def successful_pass_counts_by_team_def shot_counts_by_team_def
        shots_on_target_by_team_def goals_by_team_def)
  have ft: "empty df \<or> \<not> has_col df ''team_id'' \<or> \<not> has_col df ''x'' \<longrightarrow>
         final_third_entries_by_team df = Inr []"
    by (simp add: final_third_entries_by_team_def)
  have avg0: "empty df \<or> \<not> has_col df ''team_id'' \<longrightarrow> average_position_by_team df = Inr []"
    by (simp add: average_position_by_team_def)
  have avg: "has_col df ''x'' \<and> has_col df ''y'' \<longrightarrow> (\<exists>r. average_position_by_team df = Inr r)"
    using average_position_returns [of df] by blast
  have attack: "(\<exists>r. attack_distribution_by_zone df tid = Inr r) \<longleftrightarrow>
         has_col df ''team_id'' \<and> has_col df ''type_name'' \<and> has_col df ''x'' \<and> has_col df ''y''"
    using attack_distribution_columns [of df tid] attack_distribution_returns [of df tid]
    by blast
  have defence: "(\<exists>r. defensive_zone_activity df tid = Inr r) \<longleftrightarrow>
         has_col df ''team_id'' \<and> has_col df ''type_name'' \<and> has_col df ''x''"
    using defensive_zone_activity_columns [of df tid] defensive_zone_activity_returns [of df tid]
    by blast
  have passing: "(\<exists>r. passing_concentration df tid = Inr r) \<longleftrightarrow>
         has_col df ''team_id'' \<and> has_col df ''type_name'' \<and> has_col df ''x''
         \<and> has_col df ''y'' \<and> has_col df ''end_x''"
    using passing_concentration_columns [of df tid] passing_concentration_returns [of df tid]
    by blast
  from guarded defaults ft avg0 avg attack defence passing show ?thesis
    by (intro conjI) (elim conjE; assumption)+
qed

theorem metric_functions_return_witness:
  "has_col sample_attacks ''team_id'' \<and> has_col sample_attacks ''type_name''
   \<and> has_col sample_attacks ''x'' \<and> has_col sample_attacks ''y''
   \<and> has_col sample_attacks ''end_x''
   \<and> (\<exists>r. average_position_by_team sample_attacks = Inr r)
   \<and> (\<exists>r. attack_distribution_by_zone sample_attacks 1 = Inr r)
   \<and> (\<exists>r. defensive_zone_activity sample_attacks 1 = Inr r)
   \<and> (\<exists>r. passing_concentration sample_attacks 1 = Inr r)"
proof -
  have cols: "has_col sample_attacks ''team_id''" "has_col sample_attacks ''type_name''"
    "has_col sample_attacks ''x''" "has_col sample_attacks ''y''"
    "has_col sample_attacks ''end_x''"
    by (simp_all add: has_col_def sample_attacks_def)
  from metric_functions_return [of sample_attacks 1] cols show ?thesis
    by blast
qed

text \<open>
  A spatial function on a table without coordinates raises instead of returning its
  default result.
\<close>

theorem attack_distribution_missing_column_counterexample:
  "\<not> has_col unlocated_passes ''x''
   \<and> attack_distribution_by_zone unlocated_passes 1 = Inl (KeyError ''x'')"
  by (simp add: attack_distribution_by_zone_def unlocated_passes_def with_column_def has_col_def
      select_def Let_def)

end
